theory Spec2Isabelle
  imports Main
begin

section \<open>Python values and exceptions\<close>

text \<open>
  The exceptions the modelled code can raise. A function that can raise returns
  \<open>py_error + 'a\<close> (\<open>Inl\<close> the exception); a method that mutates an object before it
  raises returns an \<open>outcome\<close>, which keeps the object as it is at the raise.
\<close>

datatype py_error = StopIteration | AttributeError | IndexError | KeyError | TypeError | ValueError

datatype 's outcome = Returned 's | Raised py_error 's

fun state_of :: "'s outcome \<Rightarrow> 's" where
  "state_of (Returned s) = s"
| "state_of (Raised e s) = s"

text \<open>Sequencing of two statements: the second runs only when the first returned.\<close>

fun and_then :: "'s outcome \<Rightarrow> ('s \<Rightarrow> 's outcome) \<Rightarrow> 's outcome" where
  "and_then (Returned s) f = f s"
| "and_then (Raised e s) f = Raised e s"

text \<open>\<open>for x in xs: body(x)\<close> on a mutable state: the loop stops at the first raise.\<close>

fun for_each :: "('a \<Rightarrow> 's \<Rightarrow> 's outcome) \<Rightarrow> 'a list \<Rightarrow> 's \<Rightarrow> 's outcome" where
  "for_each body [] s = Returned s"
| "for_each body (x # xs) s = and_then (body x s) (for_each body xs)"

text \<open>\<open>next((i for i, x in enumerate(xs) if p(x)), None)\<close>: the position of the first match.\<close>

fun first_index :: "('a \<Rightarrow> bool) \<Rightarrow> 'a list \<Rightarrow> nat option" where
  "first_index p [] = None"
| "first_index p (x # xs) =
     (if p x then Some 0 else map_option Suc (first_index p xs))"

text \<open>Naive dates, times of day and timestamps of the \<open>datetime\<close> module.\<close>

record py_date =
  year :: nat
  month :: nat
  day :: nat

record py_time =
  hour :: nat
  minute :: nat
  second :: nat

record py_datetime =
  dt_date :: py_date
  dt_time :: py_time

text \<open>\<open>datetime.combine(d, t)\<close>; \<open>dt_time\<close> is \<open>datetime.time()\<close>.\<close>

definition combine :: "py_date \<Rightarrow> py_time \<Rightarrow> py_datetime" where
  "combine d t = \<lparr>dt_date = d, dt_time = t\<rparr>"

text \<open>JSON values, as \<open>json.dumps\<close> receives them and \<open>json.loads\<close> returns them.\<close>

datatype json = JNull | JInt int | JStr string | JList "json list" | JObj "(string \<times> json) list"

section \<open>The instrument records\<close>

text \<open>
  The data shapes of the instrument library, with the fields the code reads and writes.
  A numeric field holds an integer or Python's \<open>None\<close>. Where two classes share a field
  name, the second carries a prefix: \<open>ct_num\<close>, \<open>ct_volume\<close> (client-type quantity),
  \<open>lim_max_price\<close>, \<open>lim_min_price\<close> (order limitations), \<open>mw_tsetmc_code\<close>
  (market-watch client-type record), \<open>ch_isin\<close> (channel).
\<close>

record InstrumentIdentification =
  isin :: string
  tsetmc_code :: string
  ticker :: string
  name_persian :: string

record TradeCandle =
  previous_price :: "int option"
  close_price :: "int option"
  last_price :: "int option"
  open_price :: "int option"
  max_price :: "int option"
  min_price :: "int option"
  trade_volume :: "int option"
  trade_value :: "int option"
  trade_num :: "int option"
  last_trade_datetime :: "py_datetime option"

record OrderBookRowSide =
  num :: "int option"
  volume :: "int option"
  price :: "int option"

record OrderBookRow =
  demand :: OrderBookRowSide
  "supply" :: OrderBookRowSide

record OrderBook =
  rows :: "OrderBookRow list"

record ClientTypeTradeQuantity =
  ct_num :: "int option"
  ct_volume :: "int option"

record ClientTypeTrade =
  buy :: ClientTypeTradeQuantity
  sell :: ClientTypeTradeQuantity

record ClientType =
  legal :: ClientTypeTrade
  natural :: ClientTypeTrade

record OrderLimitations =
  lim_max_price :: "int option"
  lim_min_price :: "int option"

record Instrument =
  identification :: InstrumentIdentification
  intraday_trade_candle :: TradeCandle
  orderbook :: OrderBook
  client_type :: ClientType
  order_limitations :: OrderLimitations

text \<open>
  A market-watch trade record: the fields of an instrument, and the time of day of the
  last trade.
\<close>

record MarketWatchTradeData = Instrument +
  last_trade_time :: py_time

text \<open>
  A market-watch client-type record: the fields of a client type (\<open>legal\<close>, \<open>natural\<close>),
  and the tsetmc code of the instrument. The record has no attribute \<open>client_type\<close>.
\<close>

record MarketWatchClientTypeData = ClientType +
  mw_tsetmc_code :: string

section \<open>websocket.py: channels and their subscriber sets\<close>

record 'c InstrumentChannel =
  ch_isin :: string
  trade_subscribers :: "'c set"
  orderbook_subscribers :: "'c set"
  clienttype_subscribers :: "'c set"

text \<open>\<open>InstrumentChannel.__init__\<close>.\<close>

definition new_InstrumentChannel :: "string \<Rightarrow> 'c InstrumentChannel" where
  "new_InstrumentChannel i =
     \<lparr>ch_isin = i, trade_subscribers = {}, orderbook_subscribers = {},
      clienttype_subscribers = {}\<rparr>"

text \<open>\<open>set.remove\<close> raises \<open>KeyError\<close> on an absent element; \<open>set.add\<close> never raises.\<close>

definition set_remove :: "'c \<Rightarrow> 'c set \<Rightarrow> py_error + 'c set" where
  "set_remove c s = (if c \<in> s then Inr (s - {c}) else Inl KeyError)"

definition subscribe_trade :: "'c \<Rightarrow> 'c InstrumentChannel \<Rightarrow> py_error + 'c InstrumentChannel" where
  "subscribe_trade client ch = Inr (ch\<lparr>trade_subscribers := insert client (trade_subscribers ch)\<rparr>)"

definition subscribe_orderbook :: "'c \<Rightarrow> 'c InstrumentChannel \<Rightarrow> py_error + 'c InstrumentChannel" where
  "subscribe_orderbook client ch =
     Inr (ch\<lparr>orderbook_subscribers := insert client (orderbook_subscribers ch)\<rparr>)"

definition subscribe_clienttype :: "'c \<Rightarrow> 'c InstrumentChannel \<Rightarrow> py_error + 'c InstrumentChannel" where
  "subscribe_clienttype client ch =
     Inr (ch\<lparr>clienttype_subscribers := insert client (clienttype_subscribers ch)\<rparr>)"

text \<open>A chain of calls on one channel: a raise ends the chain.\<close>

definition then_call ::
  "py_error + 'a \<Rightarrow> ('a \<Rightarrow> py_error + 'a) \<Rightarrow> py_error + 'a" where
  "then_call r f = (case r of Inl e \<Rightarrow> Inl e | Inr x \<Rightarrow> f x)"

definition subscribe_all :: "'c \<Rightarrow> 'c InstrumentChannel \<Rightarrow> py_error + 'c InstrumentChannel" where
  "subscribe_all client ch =
     then_call (then_call (subscribe_trade client ch) (subscribe_orderbook client))
       (subscribe_clienttype client)"

text \<open>\<open>try: s.remove(client) except KeyError: pass\<close>: only a \<open>KeyError\<close> is caught.\<close>

definition unsubscribe_trade :: "'c \<Rightarrow> 'c InstrumentChannel \<Rightarrow> py_error + 'c InstrumentChannel" where
  "unsubscribe_trade client ch =
     (case set_remove client (trade_subscribers ch) of
        Inr s \<Rightarrow> Inr (ch\<lparr>trade_subscribers := s\<rparr>)
      | Inl e \<Rightarrow> if e = KeyError then Inr ch else Inl e)"

definition unsubscribe_orderbook :: "'c \<Rightarrow> 'c InstrumentChannel \<Rightarrow> py_error + 'c InstrumentChannel" where
  "unsubscribe_orderbook client ch =
     (case set_remove client (orderbook_subscribers ch) of
        Inr s \<Rightarrow> Inr (ch\<lparr>orderbook_subscribers := s\<rparr>)
      | Inl e \<Rightarrow> if e = KeyError then Inr ch else Inl e)"

definition unsubscribe_clienttype :: "'c \<Rightarrow> 'c InstrumentChannel \<Rightarrow> py_error + 'c InstrumentChannel" where
  "unsubscribe_clienttype client ch =
     (case set_remove client (clienttype_subscribers ch) of
        Inr s \<Rightarrow> Inr (ch\<lparr>clienttype_subscribers := s\<rparr>)
      | Inl e \<Rightarrow> if e = KeyError then Inr ch else Inl e)"

definition unsubscribe_all :: "'c \<Rightarrow> 'c InstrumentChannel \<Rightarrow> py_error + 'c InstrumentChannel" where
  "unsubscribe_all client ch =
     then_call (then_call (unsubscribe_trade client ch) (unsubscribe_orderbook client))
       (unsubscribe_clienttype client)"

section \<open>repository.py: the market state repository\<close>

text \<open>
  \<open>TsetmcWebsocket.set_market_realtime_data_pushers\<close> stores three callbacks on the
  repository object. A call of one of them is a \<open>push_call\<close>; \<open>pushed\<close> is the sequence
  of calls made so far. No method of \<open>MarketRealtimeData\<close> contains a call of a pusher,
  so none of the functions below extends \<open>pushed\<close>.
\<close>

datatype push_call =
  Pusher_trade_data "Instrument list"
| Pusher_orderbook_data "(Instrument \<times> nat list) list"
| Pusher_clienttype_data "Instrument list"

record MarketRealtimeData =
  instruments :: "Instrument list"
  pushed :: "push_call list"

definition update_instrument_client_type :: "ClientType \<Rightarrow> ClientType \<Rightarrow> ClientType" where
  "update_instrument_client_type instrument_ct mwi_ct =
     instrument_ct
       \<lparr>legal := (legal instrument_ct)
          \<lparr>buy := (buy (legal instrument_ct))
             \<lparr>ct_num := ct_num (buy (legal mwi_ct)),
              ct_volume := ct_volume (buy (legal mwi_ct))\<rparr>,
           sell := (sell (legal instrument_ct))
             \<lparr>ct_num := ct_num (sell (legal mwi_ct)),
              ct_volume := ct_volume (sell (legal mwi_ct))\<rparr>\<rparr>,
        natural := (natural instrument_ct)
          \<lparr>buy := (buy (natural instrument_ct))
             \<lparr>ct_num := ct_num (buy (natural mwi_ct)),
              ct_volume := ct_volume (buy (natural mwi_ct))\<rparr>,
           sell := (sell (natural instrument_ct))
             \<lparr>ct_num := ct_num (sell (natural mwi_ct)),
              ct_volume := ct_volume (sell (natural mwi_ct))\<rparr>\<rparr>\<rparr>"

text \<open>
  \<open>instrument.client_type != mwi\<close> in \<open>apply_new_client_type\<close> compares the stored client
  type with the market-watch record itself. The library compares the two by their
  fields: they are unequal when a \<open>legal\<close> or a \<open>natural\<close> field differs.
\<close>

definition client_type_ne_mwi :: "ClientType \<Rightarrow> MarketWatchClientTypeData \<Rightarrow> bool" where
  "client_type_ne_mwi ct mwi = (\<not> (legal ct = legal mwi \<and> natural ct = natural mwi))"

text \<open>
  \<open>mwi.client_type\<close>, the second argument of the call of \<open>update_instrument_client_type\<close>:
  the market-watch record has no such attribute, so reading it raises \<open>AttributeError\<close>.
\<close>

definition mwi_client_type :: "MarketWatchClientTypeData \<Rightarrow> py_error + ClientType" where
  "mwi_client_type mwi = Inl AttributeError"

text \<open>
  The body of the loop of \<open>apply_new_client_type\<close>, for one record \<open>mwi\<close>. The arguments of
  the call are evaluated before the call: when reading one raises, nothing is written.
\<close>

definition apply_client_type_one ::
  "MarketWatchClientTypeData \<Rightarrow> MarketRealtimeData \<Rightarrow> MarketRealtimeData outcome" where
  "apply_client_type_one mwi repo =
     (case first_index (\<lambda>x. tsetmc_code (identification x) = mw_tsetmc_code mwi)
             (instruments repo) of
        None \<Rightarrow> Returned repo
      | Some i \<Rightarrow>
          (let instrument = instruments repo ! i in
           if client_type_ne_mwi (client_type instrument) mwi
           then (case mwi_client_type mwi of
                   Inl e \<Rightarrow> Raised e repo
                 | Inr mwi_ct \<Rightarrow>
                     Returned (repo\<lparr>instruments := (instruments repo)
                       [i := instrument\<lparr>client_type :=
                          update_instrument_client_type (client_type instrument) mwi_ct\<rparr>]\<rparr>))
           else Returned repo))"

definition apply_new_client_type ::
  "MarketRealtimeData \<Rightarrow> MarketWatchClientTypeData list \<Rightarrow> MarketRealtimeData outcome" where
  "apply_new_client_type repo client_type_list =
     for_each apply_client_type_one client_type_list repo"

definition update_instrument_orderbook_row :: "OrderBookRow \<Rightarrow> OrderBookRow \<Rightarrow> OrderBookRow" where
  "update_instrument_orderbook_row instrument_obr mwi_obr =
     instrument_obr
       \<lparr>demand := (demand instrument_obr)
          \<lparr>num := num (demand mwi_obr),
           volume := volume (demand mwi_obr),
           price := price (demand mwi_obr)\<rparr>,
        supply := (supply instrument_obr)
          \<lparr>num := num (supply mwi_obr),
           volume := volume (supply mwi_obr),
           price := price (supply mwi_obr)\<rparr>\<rparr>"

text \<open>\<open>datetime.today()\<close> reads the clock: the date it returns is the parameter \<open>today\<close>.\<close>

definition update_instrument_trade_data ::
  "py_date \<Rightarrow> Instrument \<Rightarrow> MarketWatchTradeData \<Rightarrow> Instrument" where
  "update_instrument_trade_data today instrument mwi =
     instrument\<lparr>intraday_trade_candle := (intraday_trade_candle instrument)
       \<lparr>previous_price := previous_price (intraday_trade_candle mwi),
        close_price := close_price (intraday_trade_candle mwi),
        last_price := last_price (intraday_trade_candle mwi),
        open_price := open_price (intraday_trade_candle mwi),
        max_price := max_price (intraday_trade_candle mwi),
        min_price := min_price (intraday_trade_candle mwi),
        trade_volume := trade_volume (intraday_trade_candle mwi),
        trade_value := trade_value (intraday_trade_candle mwi),
        trade_num := trade_num (intraday_trade_candle mwi),
        last_trade_datetime := Some (combine today (last_trade_time mwi))\<rparr>\<rparr>"

text \<open>
  The loop over \<open>enumerate(mwi.orderbook.rows)\<close>, on the stored rows. \<open>rows[rn]\<close> raises
  \<open>IndexError\<close> when the stored order book has no row \<open>rn\<close>; the rows overwritten before
  stay overwritten.
  \<open>row != rows[rn]\<close> compares the two rows by content. (Were rows compared by
  identity, every row would be overwritten, by a row of the same content where the
  contents agree: the stored rows afterwards are the same.)
\<close>

fun orderbook_loop ::
  "(nat \<times> OrderBookRow) list \<Rightarrow> OrderBookRow list \<Rightarrow> OrderBookRow list outcome" where
  "orderbook_loop [] stored = Returned stored"
| "orderbook_loop ((rn, row) # rest) stored =
     (if rn < length stored
      then (if row \<noteq> stored ! rn
            then orderbook_loop rest
                   (stored[rn := update_instrument_orderbook_row (stored ! rn) row])
            else orderbook_loop rest stored)
      else Raised IndexError stored)"

text \<open>
  \<open>Instrument(InstrumentIdentification(...))\<close>: the constructor belongs to the instrument
  library; \<open>blank\<close> holds the field values it gives a new instrument.
\<close>

definition new_Instrument :: "Instrument \<Rightarrow> InstrumentIdentification \<Rightarrow> Instrument" where
  "new_Instrument blank ident = blank\<lparr>identification := ident\<rparr>"

fun map_outcome :: "('a \<Rightarrow> 'b) \<Rightarrow> 'a outcome \<Rightarrow> 'b outcome" where
  "map_outcome f (Returned x) = Returned (f x)"
| "map_outcome f (Raised e x) = Raised e (f x)"

text \<open>The body of the loop of \<open>apply_new_trade_data\<close>, for one record \<open>mwi\<close>.\<close>

definition apply_trade_one ::
  "Instrument \<Rightarrow> py_date \<Rightarrow> MarketWatchTradeData \<Rightarrow> MarketRealtimeData
     \<Rightarrow> MarketRealtimeData outcome" where
  "apply_trade_one blank today mwi repo =
     (let found = first_index (\<lambda>x. isin (identification x) = isin (identification mwi))
                    (instruments repo);
          insts = (case found of
                     Some i \<Rightarrow> instruments repo
                   | None \<Rightarrow> instruments repo @
                       [new_Instrument blank
                          \<lparr>isin = isin (identification mwi),
                           tsetmc_code = tsetmc_code (identification mwi),
                           ticker = ticker (identification mwi),
                           name_persian = name_persian (identification mwi)\<rparr>]);
          i = (case found of Some i \<Rightarrow> i | None \<Rightarrow> length (instruments repo));
          instrument = insts ! i;
          instrument1 =
            (if \<not> (case last_trade_datetime (intraday_trade_candle instrument) of
                      None \<Rightarrow> False
                    | Some ltd \<Rightarrow> dt_time ltd = last_trade_time mwi)
             then update_instrument_trade_data today instrument mwi
             else instrument)
      in map_outcome
           (\<lambda>rs. repo\<lparr>instruments :=
                    insts[i := instrument1\<lparr>orderbook := (orderbook instrument1)\<lparr>rows := rs\<rparr>\<rparr>]\<rparr>)
           (orderbook_loop (enumerate 0 (rows (orderbook mwi))) (rows (orderbook instrument1))))"

definition apply_new_trade_data ::
  "Instrument \<Rightarrow> py_date \<Rightarrow> MarketRealtimeData \<Rightarrow> MarketWatchTradeData list
     \<Rightarrow> MarketRealtimeData outcome" where
  "apply_new_trade_data blank today repo trade_data =
     for_each (apply_trade_one blank today) trade_data repo"

section \<open>websocket.py: serialising an instrument\<close>

text \<open>\<open>str(n)\<close> of a natural number, and the format \<open>{n:02}\<close>.\<close>

fun digits :: "nat \<Rightarrow> string" where
  "digits n =
     (if n < 10 then [char_of (48 + n)]
      else digits (n div 10) @ [char_of (48 + n mod 10)])"

definition fmt02 :: "nat \<Rightarrow> string" where
  "fmt02 n = (if n < 10 then CHR ''0'' # digits n else digits n)"

definition ltd_display :: "py_datetime \<Rightarrow> string" where
  "ltd_display ltd =
     digits (year (dt_date ltd)) @ ''/'' @ fmt02 (month (dt_date ltd)) @ ''/''
       @ fmt02 (day (dt_date ltd)) @ '' '' @ fmt02 (hour (dt_time ltd)) @ '':''
       @ fmt02 (minute (dt_time ltd)) @ '':'' @ fmt02 (second (dt_time ltd))"

text \<open>A numeric field as \<open>json.dumps\<close> writes it: \<open>None\<close> is \<open>null\<close>.\<close>

definition json_int :: "int option \<Rightarrow> json" where
  "json_int v = (case v of None \<Rightarrow> JNull | Some n \<Rightarrow> JInt n)"

text \<open>
  A Python \<open>dict\<close> with string keys is a list of pairs in insertion order.
  \<open>ltd.year\<close> on a candle without a timestamp raises \<open>AttributeError\<close>.
\<close>

definition instrument_data_trade :: "Instrument \<Rightarrow> py_error + (string \<times> json) list" where
  "instrument_data_trade instrument =
     (case last_trade_datetime (intraday_trade_candle instrument) of
        None \<Rightarrow> Inl AttributeError
      | Some ltd \<Rightarrow>
          Inr [(''trade'',
                JList [json_int (close_price (intraday_trade_candle instrument)),
                       json_int (last_price (intraday_trade_candle instrument)),
                       JStr (ltd_display ltd),
                       json_int (max_price (intraday_trade_candle instrument)),
                       json_int (min_price (intraday_trade_candle instrument)),
                       json_int (open_price (intraday_trade_candle instrument)),
                       json_int (previous_price (intraday_trade_candle instrument)),
                       json_int (trade_num (intraday_trade_candle instrument)),
                       json_int (trade_value (intraday_trade_candle instrument)),
                       json_int (trade_volume (intraday_trade_candle instrument))])])"

definition orderbook_row_json :: "nat \<Rightarrow> OrderBookRow \<Rightarrow> json" where
  "orderbook_row_json rn x =
     JList [JInt (int rn),
            json_int (num (demand x)), json_int (price (demand x)),
            json_int (volume (demand x)),
            json_int (num (supply x)), json_int (price (supply x)),
            json_int (volume (supply x))]"

definition instrument_data_orderbook_specific_rows ::
  "Instrument \<Rightarrow> nat list \<Rightarrow> (string \<times> json) list" where
  "instrument_data_orderbook_specific_rows instrument rs =
     [(''orderbook'',
       JList (map (\<lambda>(rn, x). orderbook_row_json rn x)
                (filter (\<lambda>(rn, x). rn \<in> set rs)
                   (enumerate 0 (rows (orderbook instrument))))))]"

definition instrument_data_orderbook :: "Instrument \<Rightarrow> (string \<times> json) list" where
  "instrument_data_orderbook instrument =
     [(''orderbook'',
       JList (map (\<lambda>(rn, x). orderbook_row_json rn x)
                (enumerate 0 (rows (orderbook instrument)))))]"

definition instrument_data_clienttype :: "Instrument \<Rightarrow> (string \<times> json) list" where
  "instrument_data_clienttype instrument =
     [(''clienttype'',
       JList [json_int (ct_num (buy (legal (client_type instrument)))),
              json_int (ct_volume (buy (legal (client_type instrument)))),
              json_int (ct_num (sell (legal (client_type instrument)))),
              json_int (ct_volume (sell (legal (client_type instrument)))),
              json_int (ct_num (buy (natural (client_type instrument)))),
              json_int (ct_volume (buy (natural (client_type instrument)))),
              json_int (ct_num (sell (natural (client_type instrument)))),
              json_int (ct_volume (sell (natural (client_type instrument))))])]"

definition instrument_data_thresholds :: "Instrument \<Rightarrow> (string \<times> json) list" where
  "instrument_data_thresholds instrument =
     [(''thresholds'',
       JList [json_int (lim_max_price (order_limitations instrument)),
              json_int (lim_min_price (order_limitations instrument))])]"

text \<open>The four dictionaries have four different keys, so \<open>|\<close> appends them.\<close>

definition instrument_data_all :: "Instrument \<Rightarrow> py_error + (string \<times> json) list" where
  "instrument_data_all instrument =
     (case instrument_data_trade instrument of
        Inl e \<Rightarrow> Inl e
      | Inr trade \<Rightarrow>
          Inr (instrument_data_thresholds instrument @ trade
               @ instrument_data_orderbook instrument
               @ instrument_data_clienttype instrument))"

section \<open>websocket.py: commands of a connection\<close>

text \<open>\<open>s.split(sep)\<close> for a separator of one character.\<close>

fun str_split :: "char \<Rightarrow> string \<Rightarrow> string list" where
  "str_split sep [] = [[]]"
| "str_split sep (c # cs) =
     (if c = sep then [] # str_split sep cs
      else (case str_split sep cs of
              [] \<Rightarrow> [[c]]
            | part # parts \<Rightarrow> (c # part) # parts))"

text \<open>\<open>d[k] = v\<close> on a dictionary.\<close>

fun dict_set :: "'k \<Rightarrow> 'v \<Rightarrow> ('k \<times> 'v) list \<Rightarrow> ('k \<times> 'v) list" where
  "dict_set k v [] = [(k, v)]"
| "dict_set k v ((k', v') # kvs) =
     (if k' = k then (k, v) # kvs else (k', v') # dict_set k v kvs)"

text \<open>
  Modelled from the spec: \<open>MarketRealtimeData.get_instruments\<close> is called by
  \<open>handle_connection_message\<close> and is not defined in repository.py. The spec's
  \<open>snapshot(identity)\<close> "returns a copy-safe read of the current full instrument record,
  or a not-found signal if the identity is unknown"; the caller indexes the result by the
  position of the isin and tests it for truth, so the result has one entry for each isin,
  \<open>None\<close> for an unknown one.
\<close>

definition get_instruments :: "MarketRealtimeData \<Rightarrow> string list \<Rightarrow> Instrument option list" where
  "get_instruments repo isins =
     map (\<lambda>i. find (\<lambda>x. isin (identification x) = i) (instruments repo)) isins"

text \<open>The two dispatch tables: a missing key raises \<open>KeyError\<close>.\<close>

definition get_channel_action_func ::
  "string \<Rightarrow> string
     \<Rightarrow> py_error + ('c \<Rightarrow> 'c InstrumentChannel \<Rightarrow> py_error + 'c InstrumentChannel)" where
  "get_channel_action_func action channel =
     (if action = ''1'' then
        (if channel = ''all'' then Inr subscribe_all
         else if channel = ''trade'' then Inr subscribe_trade
         else if channel = ''orderbook'' then Inr subscribe_orderbook
         else if channel = ''clienttype'' then Inr subscribe_clienttype
         else Inl KeyError)
      else if action = ''0'' then
        (if channel = ''all'' then Inr unsubscribe_all
         else if channel = ''trade'' then Inr unsubscribe_trade
         else if channel = ''orderbook'' then Inr unsubscribe_orderbook
         else if channel = ''clienttype'' then Inr unsubscribe_clienttype
         else Inl KeyError)
      else Inl KeyError)"

text \<open>
  The initial-data functions return a dictionary (\<open>JObj\<close>) for a subscription and \<open>None\<close>
  (\<open>JNull\<close>) for \<open>lambda x: None\<close>.
\<close>

definition get_initial_data_func ::
  "string \<Rightarrow> string \<Rightarrow> py_error + (Instrument \<Rightarrow> py_error + json)" where
  "get_initial_data_func action channel =
     (if action = ''1'' then
        (if channel = ''all'' then Inr (\<lambda>x. map_sum id JObj (instrument_data_all x))
         else if channel = ''trade'' then Inr (\<lambda>x. map_sum id JObj (instrument_data_trade x))
         else if channel = ''orderbook'' then Inr (\<lambda>x. Inr (JObj (instrument_data_orderbook x)))
         else if channel = ''clienttype'' then Inr (\<lambda>x. Inr (JObj (instrument_data_clienttype x)))
         else Inl KeyError)
      else if action = ''0'' then
        (if channel = ''all'' then Inr (\<lambda>x. Inr JNull)
         else if channel = ''trade'' then Inr (\<lambda>x. Inr JNull)
         else if channel = ''orderbook'' then Inr (\<lambda>x. Inr JNull)
         else if channel = ''clienttype'' then Inr (\<lambda>x. Inr JNull)
         else Inl KeyError)
      else Inl KeyError)"

text \<open>
  The loop of \<open>handle_connection_message\<close> over \<open>enumerate(isins)\<close>, under the channels
  lock. \<open>next((x for x in self.__channels), None)\<close> has no condition: it is the first
  channel of the list, or \<open>None\<close> when the list is empty; only then a channel is created
  and appended. The result is the channel list, and the exception raised or the
  dictionary returned.
\<close>

fun subscription_loop ::
  "('c \<Rightarrow> 'c InstrumentChannel \<Rightarrow> py_error + 'c InstrumentChannel)
     \<Rightarrow> (Instrument \<Rightarrow> py_error + json) \<Rightarrow> 'c \<Rightarrow> Instrument option list
     \<Rightarrow> (nat \<times> string) list \<Rightarrow> 'c InstrumentChannel list \<Rightarrow> (string \<times> json) list
     \<Rightarrow> 'c InstrumentChannel list \<times> (py_error + (string \<times> json) list option)" where
  "subscription_loop channel_action_func initial_data_func client insts [] channels initial_data =
     (channels, Inr (Some initial_data))"
| "subscription_loop channel_action_func initial_data_func client insts
     ((counter, isin_key) # rest) channels initial_data =
     (let (channel, others) =
            (case channels of
               [] \<Rightarrow> (new_InstrumentChannel isin_key, [])
             | x # xs \<Rightarrow> (x, xs))
      in case channel_action_func client channel of
           Inl e \<Rightarrow> (channel # others, Inl e)
         | Inr channel' \<Rightarrow>
             (if counter < length insts then
                (case insts ! counter of
                   None \<Rightarrow>
                     subscription_loop channel_action_func initial_data_func client insts
                       rest (channel' # others) initial_data
                 | Some instrument \<Rightarrow>
                     (case initial_data_func instrument of
                        Inl e \<Rightarrow> (channel' # others, Inl e)
                      | Inr d \<Rightarrow>
                          subscription_loop channel_action_func initial_data_func client insts
                            rest (channel' # others) (dict_set isin_key d initial_data)))
              else (channel' # others, Inl IndexError)))"

definition acceptable_actions :: "string list" where
  "acceptable_actions = [''0'', ''1'']"

definition acceptable_channels :: "string list" where
  "acceptable_channels = [''all'', ''trade'', ''orderbook'', ''clienttype'']"

text \<open>
  \<open>if fake_isin:\<close> tests the token found for truth: the empty string is false.
\<close>

definition handle_connection_message ::
  "MarketRealtimeData \<Rightarrow> 'c InstrumentChannel list \<Rightarrow> 'c \<Rightarrow> string
     \<Rightarrow> 'c InstrumentChannel list \<times> (py_error + (string \<times> json) list option)" where
  "handle_connection_message repo channels client message =
     (let message_parts = str_split CHR ''.'' message in
      if length message_parts \<noteq> 3 then (channels, Inr None)
      else if message_parts ! 0 \<notin> set acceptable_actions then (channels, Inr None)
      else if message_parts ! 1 \<notin> set acceptable_channels then (channels, Inr None)
      else
        (let isins = str_split CHR '','' (message_parts ! 2);
             fake_isin = find (\<lambda>x. length x \<noteq> 12) isins
         in if (case fake_isin of None \<Rightarrow> False | Some x \<Rightarrow> x \<noteq> [])
            then (channels, Inr None)
            else
              (let insts = get_instruments repo isins in
               case get_channel_action_func (message_parts ! 0) (message_parts ! 1) of
                 Inl e \<Rightarrow> (channels, Inl e)
               | Inr channel_action_func \<Rightarrow>
                   (case get_initial_data_func (message_parts ! 0) (message_parts ! 1) of
                      Inl e \<Rightarrow> (channels, Inl e)
                    | Inr initial_data_func \<Rightarrow>
                        subscription_loop channel_action_func initial_data_func client insts
                          (enumerate 0 isins) channels []))))"

text \<open>\<open>remove_from_channels\<close>: \<open>unsubscribe_all\<close> on every channel.\<close>

fun remove_from_channels ::
  "'c \<Rightarrow> 'c InstrumentChannel list \<Rightarrow> py_error + 'c InstrumentChannel list" where
  "remove_from_channels client [] = Inr []"
| "remove_from_channels client (channel # channels) =
     (case unsubscribe_all client channel of
        Inl e \<Rightarrow> Inl e
      | Inr channel' \<Rightarrow> map_sum id ((#) channel') (remove_from_channels client channels))"

text \<open>
  One turn of the loop of \<open>handle_connection\<close>, for one message received: the channels
  afterwards, the frames sent to the connection, and the exception that leaves
  \<open>handle_connection\<close>, if any. The loop goes on to the next message, and the connection
  stays open, exactly when no exception leaves. \<open>if response:\<close> is false for \<open>None\<close> and for
  the empty dictionary. An exception of \<open>handle_connection_message\<close> is not one of the two
  caught, so the \<open>finally\<close> clause runs and the exception leaves.
\<close>

record 'c turn =
  channels_after :: "'c InstrumentChannel list"
  frames_sent :: "json list"
  escaped :: "py_error option"

definition handle_connection_turn ::
  "MarketRealtimeData \<Rightarrow> 'c InstrumentChannel list \<Rightarrow> 'c \<Rightarrow> string \<Rightarrow> 'c turn" where
  "handle_connection_turn repo channels client message =
     (case handle_connection_message repo channels client message of
        (channels', Inr response) \<Rightarrow>
          \<lparr>channels_after = channels',
           frames_sent = (case response of
                            None \<Rightarrow> []
                          | Some d \<Rightarrow> if d \<noteq> [] then [JObj d] else []),
           escaped = None\<rparr>
      | (channels', Inl e) \<Rightarrow>
          (case remove_from_channels client channels' of
             Inr channels'' \<Rightarrow>
               \<lparr>channels_after = channels'', frames_sent = [], escaped = Some e\<rparr>
           | Inl e' \<Rightarrow>
               \<lparr>channels_after = channels', frames_sent = [], escaped = Some e'\<rparr>))"

section \<open>client.py: decoding a pushed frame\<close>

text \<open>
  \<open>target = int(data[k])\<close>, one assignment of a handler: \<open>data[k]\<close> raises \<open>IndexError\<close>
  past the end of the array, and the conversion \<open>convert\<close> (\<open>int\<close> or
  \<open>datetime.fromisoformat\<close>, functions of Python given as parameters) can raise.
\<close>

definition assign_from ::
  "(json \<Rightarrow> py_error + 'v) \<Rightarrow> json list \<Rightarrow> nat \<Rightarrow> ('v \<Rightarrow> Instrument \<Rightarrow> Instrument)
     \<Rightarrow> Instrument \<Rightarrow> Instrument outcome" where
  "assign_from convert data k store instrument =
     (if k < length data then
        (case convert (data ! k) of
           Inl e \<Rightarrow> Raised e instrument
         | Inr v \<Rightarrow> Returned (store v instrument))
      else Raised IndexError instrument)"

definition candle_update :: "(TradeCandle \<Rightarrow> TradeCandle) \<Rightarrow> Instrument \<Rightarrow> Instrument" where
  "candle_update f instrument =
     instrument\<lparr>intraday_trade_candle := f (intraday_trade_candle instrument)\<rparr>"

definition message_thresholds ::
  "(json \<Rightarrow> py_error + int) \<Rightarrow> Instrument \<Rightarrow> json list \<Rightarrow> Instrument outcome" where
  "message_thresholds py_int instrument data =
     and_then
       (assign_from py_int data 0
          (\<lambda>v x. x\<lparr>order_limitations := (order_limitations x)\<lparr>lim_max_price := Some v\<rparr>\<rparr>)
          instrument)
       (assign_from py_int data 1
          (\<lambda>v x. x\<lparr>order_limitations := (order_limitations x)\<lparr>lim_min_price := Some v\<rparr>\<rparr>))"

definition message_trade ::
  "(json \<Rightarrow> py_error + int) \<Rightarrow> (json \<Rightarrow> py_error + py_datetime) \<Rightarrow> Instrument
     \<Rightarrow> json list \<Rightarrow> Instrument outcome" where
  "message_trade py_int fromisoformat instrument data =
     and_then (and_then (and_then (and_then (and_then (and_then (and_then (and_then (and_then
       (assign_from py_int data 0 (\<lambda>v. candle_update (close_price_update (\<lambda>_. Some v)))
          instrument)
       (assign_from py_int data 1 (\<lambda>v. candle_update (last_price_update (\<lambda>_. Some v)))))
       (assign_from fromisoformat data 2
          (\<lambda>v. candle_update (last_trade_datetime_update (\<lambda>_. Some v)))))
       (assign_from py_int data 3 (\<lambda>v. candle_update (max_price_update (\<lambda>_. Some v)))))
       (assign_from py_int data 4 (\<lambda>v. candle_update (min_price_update (\<lambda>_. Some v)))))
       (assign_from py_int data 5 (\<lambda>v. candle_update (open_price_update (\<lambda>_. Some v)))))
       (assign_from py_int data 6 (\<lambda>v. candle_update (previous_price_update (\<lambda>_. Some v)))))
       (assign_from py_int data 7 (\<lambda>v. candle_update (trade_num_update (\<lambda>_. Some v)))))
       (assign_from py_int data 8 (\<lambda>v. candle_update (trade_value_update (\<lambda>_. Some v)))))
       (assign_from py_int data 9 (\<lambda>v. candle_update (trade_volume_update (\<lambda>_. Some v))))"

text \<open>
  The \<open>match\<close> statement on the channel name. The class defines no method
  \<open>__message_orderbook\<close>, so the \<open>orderbook\<close> case raises \<open>AttributeError\<close>; the last case
  only logs.
\<close>

definition process_channel ::
  "(json \<Rightarrow> py_error + int) \<Rightarrow> (json \<Rightarrow> py_error + py_datetime)
     \<Rightarrow> string \<times> json list \<Rightarrow> Instrument \<Rightarrow> Instrument outcome" where
  "process_channel py_int fromisoformat entry instrument =
     (case entry of (channel, data) \<Rightarrow>
        if channel = ''thresholds'' then message_thresholds py_int instrument data
        else if channel = ''trade'' then message_trade py_int fromisoformat instrument data
        else if channel = ''orderbook'' then Raised AttributeError instrument
        else if channel = ''clienttype'' then Returned instrument
        else Returned instrument)"

text \<open>
  The body of the outer loop of \<open>process_message\<close>, for one isin of the frame.
  \<open>next(x for x in ... if ...)\<close> has no default: it raises \<open>StopIteration\<close> when no
  subscribed instrument has the isin.
\<close>

definition process_entry ::
  "(json \<Rightarrow> py_error + int) \<Rightarrow> (json \<Rightarrow> py_error + py_datetime)
     \<Rightarrow> string \<times> (string \<times> json list) list \<Rightarrow> Instrument list \<Rightarrow> Instrument list outcome" where
  "process_entry py_int fromisoformat entry subscribed_instruments =
     (case entry of (isin_key, channels) \<Rightarrow>
        (case first_index (\<lambda>x. isin (identification x) = isin_key) subscribed_instruments of
           None \<Rightarrow> Raised StopIteration subscribed_instruments
         | Some i \<Rightarrow>
             map_outcome (\<lambda>instrument. subscribed_instruments[i := instrument])
               (for_each (process_channel py_int fromisoformat) channels
                  (subscribed_instruments ! i))))"

text \<open>
  \<open>process_message\<close> on the frame that \<open>json.loads\<close> returns: a dictionary from isin to a
  dictionary from channel name to an array.
\<close>

definition process_message ::
  "(json \<Rightarrow> py_error + int) \<Rightarrow> (json \<Rightarrow> py_error + py_datetime) \<Rightarrow> Instrument list
     \<Rightarrow> (string \<times> (string \<times> json list) list) list \<Rightarrow> Instrument list outcome" where
  "process_message py_int fromisoformat subscribed_instruments message_js =
     for_each (process_entry py_int fromisoformat) message_js subscribed_instruments"

section \<open>Observations used in the statements\<close>

text \<open>
  The stored instrument with the isin of \<open>mwi\<close> has a last-trade timestamp, and its time of
  day is the last-trade time of \<open>mwi\<close>.
\<close>

definition stored_time_equal :: "MarketRealtimeData \<Rightarrow> MarketWatchTradeData \<Rightarrow> bool" where
  "stored_time_equal repo mwi =
     (case first_index (\<lambda>x. isin (identification x) = isin (identification mwi))
             (instruments repo) of
        None \<Rightarrow> False
      | Some i \<Rightarrow>
          (case last_trade_datetime (intraday_trade_candle (instruments repo ! i)) of
             None \<Rightarrow> False
           | Some ltd \<Rightarrow> dt_time ltd = last_trade_time mwi))"

definition candles :: "MarketRealtimeData \<Rightarrow> TradeCandle list" where
  "candles repo = map intraday_trade_candle (instruments repo)"

text \<open>
  The instrument at position \<open>i\<close> is the stored instrument of isin \<open>k\<close>, and its candle is
  \<open>c\<close>.
\<close>

definition holds_candle :: "MarketRealtimeData \<Rightarrow> string \<Rightarrow> nat \<Rightarrow> TradeCandle \<Rightarrow> bool" where
  "holds_candle repo k i c =
     (first_index (\<lambda>x. isin (identification x) = k) (instruments repo) = Some i
      \<and> intraday_trade_candle (instruments repo ! i) = c)"

text \<open>The eight fields of a client-type record, in the order the websocket sends them.\<close>

definition client_type_fields :: "'a ClientType_scheme \<Rightarrow> int option list" where
  "client_type_fields ct =
     [ct_num (buy (legal ct)), ct_volume (buy (legal ct)),
      ct_num (sell (legal ct)), ct_volume (sell (legal ct)),
      ct_num (buy (natural ct)), ct_volume (buy (natural ct)),
      ct_num (sell (natural ct)), ct_volume (sell (natural ct))]"

section \<open>Example data\<close>

text \<open>
  A new instrument of the library, with five empty order-book rows; a market-watch record
  of one instrument with last price \<open>p\<close> and order-book rows \<open>rs\<close>, traded at 12:30:00;
  and the repository that holds that instrument after one such record.
\<close>

definition no_side :: OrderBookRowSide where
  "no_side = \<lparr>num = None, volume = None, price = None\<rparr>"

definition no_quantity :: ClientTypeTradeQuantity where
  "no_quantity = \<lparr>ct_num = None, ct_volume = None\<rparr>"

definition blank_Instrument :: Instrument where
  "blank_Instrument =
     \<lparr>identification = \<lparr>isin = [], tsetmc_code = [], ticker = [], name_persian = []\<rparr>,
      intraday_trade_candle =
        \<lparr>previous_price = None, close_price = None, last_price = None, open_price = None,
         max_price = None, min_price = None, trade_volume = None, trade_value = None,
         trade_num = None, last_trade_datetime = None\<rparr>,
      orderbook = \<lparr>rows = replicate 5 \<lparr>demand = no_side, supply = no_side\<rparr>\<rparr>,
      client_type =
        \<lparr>legal = \<lparr>buy = no_quantity, sell = no_quantity\<rparr>,
         natural = \<lparr>buy = no_quantity, sell = no_quantity\<rparr>\<rparr>,
      order_limitations = \<lparr>lim_max_price = None, lim_min_price = None\<rparr>\<rparr>"

definition fold_row :: "int \<Rightarrow> OrderBookRow" where
  "fold_row p =
     \<lparr>demand = \<lparr>num = Some 3, volume = Some 1000, price = Some p\<rparr>,
      supply = \<lparr>num = Some 2, volume = Some 500, price = Some (p + 10)\<rparr>\<rparr>"

definition fold_watch :: "int \<Rightarrow> OrderBookRow list \<Rightarrow> MarketWatchTradeData" where
  "fold_watch p rs =
     \<lparr>identification = \<lparr>isin = ''IRO1FOLD0001'', tsetmc_code = ''46348559193224090'',
                        ticker = ''FOLD'', name_persian = ''FOLD''\<rparr>,
      intraday_trade_candle =
        \<lparr>previous_price = Some 5000, close_price = Some 5100, last_price = Some p,
         open_price = Some 5050, max_price = Some 5200, min_price = Some 5000,
         trade_volume = Some 100000, trade_value = Some 510000000,
         trade_num = Some 40, last_trade_datetime = None\<rparr>,
      orderbook = \<lparr>rows = rs\<rparr>,
      client_type = client_type blank_Instrument,
      order_limitations = order_limitations blank_Instrument,
      last_trade_time = \<lparr>hour = 12, minute = 30, second = 0\<rparr>\<rparr>"

definition a_day :: py_date where
  "a_day = \<lparr>year = 2024, month = 1, day = 15\<rparr>"

definition empty_repo :: MarketRealtimeData where
  "empty_repo = \<lparr>instruments = [], pushed = []\<rparr>"

definition fold_rows :: "OrderBookRow list" where
  "fold_rows = [fold_row 5100, fold_row 5090, fold_row 5080, fold_row 5070, fold_row 5060]"

definition fold_instrument :: "int \<Rightarrow> OrderBookRow list \<Rightarrow> Instrument" where
  "fold_instrument p rs =
     \<lparr>identification = identification (fold_watch p rs),
      intraday_trade_candle = (intraday_trade_candle (fold_watch p rs))
        \<lparr>last_trade_datetime := Some (combine a_day \<lparr>hour = 12, minute = 30, second = 0\<rparr>)\<rparr>,
      orderbook = \<lparr>rows = rs\<rparr>,
      client_type = client_type blank_Instrument,
      order_limitations = order_limitations blank_Instrument\<rparr>"

definition fold_repo :: MarketRealtimeData where
  "fold_repo = \<lparr>instruments = [fold_instrument 5120 fold_rows], pushed = []\<rparr>"

text \<open>A record of the same instrument traded one minute later.\<close>

definition fold_watch_later :: MarketWatchTradeData where
  "fold_watch_later =
     (fold_watch 5130 fold_rows)\<lparr>last_trade_time := \<lparr>hour = 12, minute = 31, second = 0\<rparr>\<rparr>"

definition fold_client_type :: MarketWatchClientTypeData where
  "fold_client_type =
     \<lparr>legal = \<lparr>buy = \<lparr>ct_num = Some 1, ct_volume = Some 100\<rparr>,
                sell = \<lparr>ct_num = Some 2, ct_volume = Some 200\<rparr>\<rparr>,
      natural = \<lparr>buy = \<lparr>ct_num = Some 3, ct_volume = Some 300\<rparr>,
                  sell = \<lparr>ct_num = Some 4, ct_volume = Some 400\<rparr>\<rparr>,
      mw_tsetmc_code = ''46348559193224090''\<rparr>"

text \<open>
  A frame for the client: thresholds of an instrument that is not subscribed, then of one
  that is. \<open>int_of_json\<close> is \<open>int\<close> on JSON numbers; the frame has no timestamp to parse.
\<close>

fun int_of_json :: "json \<Rightarrow> py_error + int" where
  "int_of_json (JInt n) = Inr n"
| "int_of_json v = Inl TypeError"

definition no_timestamp :: "json \<Rightarrow> py_error + py_datetime" where
  "no_timestamp v = Inl ValueError"

definition thresholds_frame :: "(string \<times> (string \<times> json list) list) list" where
  "thresholds_frame =
     [(''IRO1IKCO0001'', [(''thresholds'', [JInt 2100, JInt 1900])]),
      (''IRO1FOLD0001'', [(''thresholds'', [JInt 5500, JInt 4500])])]"

section \<open>Unsubscribing\<close>

lemma unsubscribe_trade_eq:
  "unsubscribe_trade c ch = Inr (ch\<lparr>trade_subscribers := trade_subscribers ch - {c}\<rparr>)"
  by (simp add: unsubscribe_trade_def set_remove_def)

lemma unsubscribe_orderbook_eq:
  "unsubscribe_orderbook c ch =
     Inr (ch\<lparr>orderbook_subscribers := orderbook_subscribers ch - {c}\<rparr>)"
  by (simp add: unsubscribe_orderbook_def set_remove_def)

lemma unsubscribe_clienttype_eq:
  "unsubscribe_clienttype c ch =
     Inr (ch\<lparr>clienttype_subscribers := clienttype_subscribers ch - {c}\<rparr>)"
  by (simp add: unsubscribe_clienttype_def set_remove_def)

lemma unsubscribe_all_eq:
  "unsubscribe_all c ch =
     Inr (ch\<lparr>trade_subscribers := trade_subscribers ch - {c},
             orderbook_subscribers := orderbook_subscribers ch - {c},
             clienttype_subscribers := clienttype_subscribers ch - {c}\<rparr>)"
  by (simp add: unsubscribe_all_def then_call_def unsubscribe_trade_eq
      unsubscribe_orderbook_eq unsubscribe_clienttype_eq)

text \<open>
  C10. Each of the four unsubscribe operations returns a channel on every input (it never
  raises); when the connection is in none of the sets the operation targets, the channel
  is returned as it was; and applying the operation to its own result changes nothing.
\<close>

theorem unsubscribe_total_idempotent:
  fixes c :: 'c and ch :: "'c InstrumentChannel"
  shows "(\<exists>ch'. unsubscribe_trade c ch = Inr ch'
            \<and> (c \<notin> trade_subscribers ch \<longrightarrow> ch' = ch)
            \<and> unsubscribe_trade c ch' = Inr ch')
       \<and> (\<exists>ch'. unsubscribe_orderbook c ch = Inr ch'
            \<and> (c \<notin> orderbook_subscribers ch \<longrightarrow> ch' = ch)
            \<and> unsubscribe_orderbook c ch' = Inr ch')
       \<and> (\<exists>ch'. unsubscribe_clienttype c ch = Inr ch'
            \<and> (c \<notin> clienttype_subscribers ch \<longrightarrow> ch' = ch)
            \<and> unsubscribe_clienttype c ch' = Inr ch')
       \<and> (\<exists>ch'. unsubscribe_all c ch = Inr ch'
            \<and> (c \<notin> trade_subscribers ch \<and> c \<notin> orderbook_subscribers ch
                 \<and> c \<notin> clienttype_subscribers ch \<longrightarrow> ch' = ch)
            \<and> unsubscribe_all c ch' = Inr ch')"
proof (intro conjI)
  show "\<exists>ch'. unsubscribe_trade c ch = Inr ch'
            \<and> (c \<notin> trade_subscribers ch \<longrightarrow> ch' = ch)
            \<and> unsubscribe_trade c ch' = Inr ch'"
    by (simp add: unsubscribe_trade_eq)
  show "\<exists>ch'. unsubscribe_orderbook c ch = Inr ch'
            \<and> (c \<notin> orderbook_subscribers ch \<longrightarrow> ch' = ch)
            \<and> unsubscribe_orderbook c ch' = Inr ch'"
    by (simp add: unsubscribe_orderbook_eq)
  show "\<exists>ch'. unsubscribe_clienttype c ch = Inr ch'
            \<and> (c \<notin> clienttype_subscribers ch \<longrightarrow> ch' = ch)
            \<and> unsubscribe_clienttype c ch' = Inr ch'"
    by (simp add: unsubscribe_clienttype_eq)
  show "\<exists>ch'. unsubscribe_all c ch = Inr ch'
            \<and> (c \<notin> trade_subscribers ch \<and> c \<notin> orderbook_subscribers ch
                 \<and> c \<notin> clienttype_subscribers ch \<longrightarrow> ch' = ch)
            \<and> unsubscribe_all c ch' = Inr ch'"
    by (simp add: unsubscribe_all_eq)
qed

theorem unsubscribe_total_idempotent_witness:
  "(1::nat) \<notin> trade_subscribers (new_InstrumentChannel ''IRO1FOLD0001'')
   \<and> (1::nat) \<notin> orderbook_subscribers (new_InstrumentChannel ''IRO1FOLD0001'')
   \<and> (1::nat) \<notin> clienttype_subscribers (new_InstrumentChannel ''IRO1FOLD0001'')
   \<and> unsubscribe_trade (1::nat) (new_InstrumentChannel ''IRO1FOLD0001'')
       = Inr (new_InstrumentChannel ''IRO1FOLD0001'')
   \<and> unsubscribe_all (1::nat) (new_InstrumentChannel ''IRO1FOLD0001'')
       = Inr (new_InstrumentChannel ''IRO1FOLD0001'')"
  using unsubscribe_total_idempotent [of "1::nat" "new_InstrumentChannel ''IRO1FOLD0001''"]
  by (auto simp add: new_InstrumentChannel_def)

section \<open>Lookup and update lemmas\<close>

lemma first_index_Some:
  "first_index p xs = Some i \<Longrightarrow> i < length xs \<and> p (xs ! i) \<and> (\<forall>j<i. \<not> p (xs ! j))"
proof (induction xs arbitrary: i)
  case Nil then show ?case by simp
next
  case (Cons x xs)
  show ?case
  proof (cases "p x")
    case True with Cons.prems show ?thesis by simp
  next
    case False
    with Cons.prems obtain k where k: "first_index p xs = Some k" "i = Suc k" by auto
    from Cons.IH[OF k(1)] False k(2) show ?thesis
      by (auto simp: nth_Cons split: nat.splits)
  qed
qed

lemma update_instrument_client_type_eq: "update_instrument_client_type a b = b"
  by (simp add: update_instrument_client_type_def)

lemma update_instrument_orderbook_row_eq: "update_instrument_orderbook_row a b = b"
  by (simp add: update_instrument_orderbook_row_def)

lemma state_of_map_outcome: "state_of (map_outcome f r) = f (state_of r)"
  by (cases r) simp_all

lemma first_index_update:
  "first_index p xs = Some i \<Longrightarrow> p y \<Longrightarrow> first_index p (xs[i := y]) = Some i"
proof (induction xs arbitrary: i)
  case Nil then show ?case by simp
next
  case (Cons x xs)
  then show ?case by (cases i) (auto split: if_splits)
qed

lemma first_index_append_new:
  "first_index p xs = None \<Longrightarrow> p y \<Longrightarrow> first_index p (xs @ [y]) = Some (length xs)"
  by (induction xs) (auto split: if_splits)

lemma first_index_update_other:
  "first_index p xs = Some i \<Longrightarrow> j \<noteq> i \<Longrightarrow> \<not> p y \<Longrightarrow> first_index p (xs[j := y]) = Some i"
proof (induction xs arbitrary: i j)
  case Nil
  then show ?case by simp
next
  case (Cons x xs)
  show ?case
  proof (cases j)
    case 0
    with Cons.prems show ?thesis by (auto split: if_splits)
  next
    case (Suc j')
    with Cons.prems Cons.IH show ?thesis by (auto split: if_splits)
  qed
qed

lemma first_index_append_old:
  "first_index p xs = Some i \<Longrightarrow> first_index p (xs @ ys) = Some i"
  by (induction xs arbitrary: i) (auto split: if_splits)

lemma map_update_same:
  "i < length xs \<Longrightarrow> f y = f (xs ! i) \<Longrightarrow> map f (xs[i := y]) = map f xs"
  by (simp add: map_update list_update_same_conv)

text \<open>What one step does to the instrument list.\<close>

lemma apply_trade_one_found:
  assumes "first_index (\<lambda>x. isin (identification x) = isin (identification mwi))
             (instruments repo) = Some i"
  shows "\<exists>rs. state_of (apply_trade_one blank today mwi repo) =
           repo\<lparr>instruments := (instruments repo)
             [i := (let instrument = instruments repo ! i;
                        instrument1 =
                          (if \<not> (case last_trade_datetime (intraday_trade_candle instrument) of
                                    None \<Rightarrow> False
                                  | Some ltd \<Rightarrow> dt_time ltd = last_trade_time mwi)
                           then update_instrument_trade_data today instrument mwi
                           else instrument)
                    in instrument1\<lparr>orderbook := (orderbook instrument1)\<lparr>rows := rs\<rparr>\<rparr>)]\<rparr>"
  using assms by (auto simp add: apply_trade_one_def Let_def state_of_map_outcome)

lemma apply_trade_one_new:
  assumes "first_index (\<lambda>x. isin (identification x) = isin (identification mwi))
             (instruments repo) = None"
  shows "\<exists>rs. state_of (apply_trade_one blank today mwi repo) =
           repo\<lparr>instruments := (instruments repo) @
             [(let instrument = new_Instrument blank
                          \<lparr>isin = isin (identification mwi),
                           tsetmc_code = tsetmc_code (identification mwi),
                           ticker = ticker (identification mwi),
                           name_persian = name_persian (identification mwi)\<rparr>;
                        instrument1 =
                          (if \<not> (case last_trade_datetime (intraday_trade_candle instrument) of
                                    None \<Rightarrow> False
                                  | Some ltd \<Rightarrow> dt_time ltd = last_trade_time mwi)
                           then update_instrument_trade_data today instrument mwi
                           else instrument)
                    in instrument1\<lparr>orderbook := (orderbook instrument1)\<lparr>rows := rs\<rparr>\<rparr>)]\<rparr>"
  using assms by (auto simp add: apply_trade_one_def Let_def state_of_map_outcome)

section \<open>Duplicate trade records\<close>

lemma apply_trade_one_duplicate:
  assumes "stored_time_equal repo mwi"
  shows "candles (state_of (apply_trade_one blank today mwi repo)) = candles repo"
proof -
  from assms obtain i ltd where
    i: "first_index (\<lambda>x. isin (identification x) = isin (identification mwi))
          (instruments repo) = Some i"
    and ltd: "last_trade_datetime (intraday_trade_candle (instruments repo ! i)) = Some ltd"
    and eq: "dt_time ltd = last_trade_time mwi"
    by (auto simp add: stored_time_equal_def split: option.splits)
  from first_index_Some[OF i] have len: "i < length (instruments repo)" by simp
  from apply_trade_one_found[OF i, of blank today] obtain rs where
    "state_of (apply_trade_one blank today mwi repo) =
       repo\<lparr>instruments := (instruments repo)
         [i := (instruments repo ! i)
            \<lparr>orderbook := (orderbook (instruments repo ! i))\<lparr>rows := rs\<rparr>\<rparr>]\<rparr>"
    using ltd eq by (auto simp add: Let_def)
  then show ?thesis
    using len by (simp add: candles_def map_update_same)
qed

lemma apply_trade_one_records_time:
  "stored_time_equal (state_of (apply_trade_one blank today mwi repo)) mwi"
proof (cases "first_index (\<lambda>x. isin (identification x) = isin (identification mwi))
                (instruments repo)")
  case None
  from apply_trade_one_new[OF None, of blank today] obtain inst where
    st: "state_of (apply_trade_one blank today mwi repo) =
           repo\<lparr>instruments := instruments repo @ [inst]\<rparr>"
    and inst: "isin (identification inst) = isin (identification mwi)"
      "case last_trade_datetime (intraday_trade_candle inst) of
         None \<Rightarrow> False | Some ltd \<Rightarrow> dt_time ltd = last_trade_time mwi"
    by (auto simp add: Let_def new_Instrument_def update_instrument_trade_data_def
        combine_def split: option.splits)
  from first_index_append_new[OF None, of inst] inst(1)
  have "first_index (\<lambda>x. isin (identification x) = isin (identification mwi))
          (instruments repo @ [inst]) = Some (length (instruments repo))"
    by simp
  with st inst(2) show ?thesis
    by (simp add: stored_time_equal_def)
next
  case (Some i)
  from first_index_Some[OF Some] have len: "i < length (instruments repo)"
    and p: "isin (identification (instruments repo ! i)) = isin (identification mwi)"
    by simp_all
  from apply_trade_one_found[OF Some, of blank today] obtain inst where
    st: "state_of (apply_trade_one blank today mwi repo) =
           repo\<lparr>instruments := (instruments repo)[i := inst]\<rparr>"
    and inst: "isin (identification inst) = isin (identification mwi)"
      "case last_trade_datetime (intraday_trade_candle inst) of
         None \<Rightarrow> False | Some ltd \<Rightarrow> dt_time ltd = last_trade_time mwi"
    using p
    by (auto simp add: Let_def update_instrument_trade_data_def
        combine_def split: option.splits)
  from first_index_update[OF Some, of inst] inst(1)
  have "first_index (\<lambda>x. isin (identification x) = isin (identification mwi))
          ((instruments repo)[i := inst]) = Some i"
    by simp
  with st inst(2) len show ?thesis
    by (simp add: stored_time_equal_def)
qed

lemma apply_new_trade_data_single:
  "state_of (apply_new_trade_data blank today repo [mwi]) =
     state_of (apply_trade_one blank today mwi repo)"
  by (cases "apply_trade_one blank today mwi repo") (simp_all add: apply_new_trade_data_def)

lemma apply_trade_one_keeps_candle:
  assumes inv: "holds_candle repo k i c"
    and ltd: "last_trade_datetime c = Some ltd"
    and dup: "isin (identification mwi) = k \<longrightarrow> last_trade_time mwi = dt_time ltd"
  shows "holds_candle (state_of (apply_trade_one blank today mwi repo)) k i c"
proof -
  from inv have fi: "first_index (\<lambda>x. isin (identification x) = k) (instruments repo) = Some i"
    and c: "intraday_trade_candle (instruments repo ! i) = c"
    by (simp_all add: holds_candle_def)
  from first_index_Some[OF fi] have len: "i < length (instruments repo)"
    and ki: "isin (identification (instruments repo ! i)) = k"
    by simp_all
  show ?thesis
  proof (cases "isin (identification mwi) = k")
    case True
    with fi have found: "first_index (\<lambda>x. isin (identification x) = isin (identification mwi))
                    (instruments repo) = Some i"
      by simp
    from apply_trade_one_found[OF found, of blank today] obtain rs where
      st: "state_of (apply_trade_one blank today mwi repo) =
         repo\<lparr>instruments := (instruments repo)
           [i := (instruments repo ! i)
              \<lparr>orderbook := (orderbook (instruments repo ! i))\<lparr>rows := rs\<rparr>\<rparr>]\<rparr>"
      using c ltd dup True by (auto simp add: Let_def)
    have "first_index (\<lambda>x. isin (identification x) = k)
            ((instruments repo)
               [i := (instruments repo ! i)
                  \<lparr>orderbook := (orderbook (instruments repo ! i))\<lparr>rows := rs\<rparr>\<rparr>]) = Some i"
      using fi ki by (intro first_index_update) simp_all
    with st c len show ?thesis
      by (simp add: holds_candle_def)
  next
    case False
    show ?thesis
    proof (cases "first_index (\<lambda>x. isin (identification x) = isin (identification mwi))
                    (instruments repo)")
      case None
      from apply_trade_one_new[OF None, of blank today] obtain inst where
        st: "state_of (apply_trade_one blank today mwi repo) =
               repo\<lparr>instruments := instruments repo @ [inst]\<rparr>"
        by (auto simp add: Let_def)
      with first_index_append_old[OF fi, of "[inst]"] c len show ?thesis
        by (simp add: holds_candle_def nth_append)
    next
      case (Some j)
      from first_index_Some[OF Some]
      have kj: "isin (identification (instruments repo ! j)) = isin (identification mwi)"
        by simp
      with ki False have ji: "j \<noteq> i" by auto
      from apply_trade_one_found[OF Some, of blank today] obtain inst where
        st: "state_of (apply_trade_one blank today mwi repo) =
               repo\<lparr>instruments := (instruments repo)[j := inst]\<rparr>"
        and inst: "isin (identification inst) = isin (identification mwi)"
        using kj by (auto simp add: Let_def update_instrument_trade_data_def)
      from inst False have "\<not> isin (identification inst) = k" by simp
      with first_index_update_other[OF fi ji, of inst]
      have "first_index (\<lambda>x. isin (identification x) = k) ((instruments repo)[j := inst]) = Some i"
        by simp
      with st c ji show ?thesis
        by (simp add: holds_candle_def)
    qed
  qed
qed

lemma apply_new_trade_data_keeps_candle:
  assumes "holds_candle repo k i c"
    and "last_trade_datetime c = Some ltd"
    and "\<forall>mwi\<in>set trade_data. isin (identification mwi) = k \<longrightarrow> last_trade_time mwi = dt_time ltd"
  shows "holds_candle (state_of (apply_new_trade_data blank today repo trade_data)) k i c"
  using assms
proof (induction trade_data arbitrary: repo)
  case Nil
  then show ?case by (simp add: apply_new_trade_data_def)
next
  case (Cons mwi trade_data)
  from Cons.prems have step: "holds_candle (state_of (apply_trade_one blank today mwi repo)) k i c"
    by (intro apply_trade_one_keeps_candle[where ltd = ltd]) simp_all
  show ?case
  proof (cases "apply_trade_one blank today mwi repo")
    case (Returned repo')
    with step have "holds_candle repo' k i c" by simp
    from Cons.IH[OF this Cons.prems(2)] Cons.prems(3) Returned show ?thesis
      by (simp add: apply_new_trade_data_def)
  next
    case (Raised e repo')
    with step show ?thesis by (simp add: apply_new_trade_data_def)
  qed
qed

text \<open>
  The candle that \<open>update_instrument_trade_data\<close> leaves is the candle of the record with
  the record's last-trade time on the day \<open>today\<close> as timestamp.
\<close>

lemma update_instrument_trade_data_candle:
  "intraday_trade_candle (update_instrument_trade_data today instrument mwi) =
     (intraday_trade_candle mwi)
       \<lparr>last_trade_datetime := Some (combine today (last_trade_time mwi))\<rparr>"
  by (simp add: update_instrument_trade_data_def)

lemma update_instrument_trade_data_isin:
  "identification (update_instrument_trade_data today instrument mwi) = identification instrument"
  by (simp add: update_instrument_trade_data_def)

lemma apply_trade_one_writes:
  assumes nodup: "\<not> stored_time_equal repo mwi"
    and blank: "last_trade_datetime (intraday_trade_candle blank) = None"
  shows "(\<exists>i. first_index (\<lambda>x. isin (identification x) = isin (identification mwi))
               (instruments (state_of (apply_trade_one blank today mwi repo))) = Some i
           \<and> intraday_trade_candle
               (instruments (state_of (apply_trade_one blank today mwi repo)) ! i)
             = (intraday_trade_candle mwi)
                 \<lparr>last_trade_datetime := Some (combine today (last_trade_time mwi))\<rparr>)
         \<and> candles (state_of (apply_trade_one blank today mwi repo)) \<noteq> candles repo"
proof -
  let ?p = "\<lambda>x. isin (identification x) = isin (identification mwi)"
  let ?after = "state_of (apply_trade_one blank today mwi repo)"
  let ?written = "(intraday_trade_candle mwi)
                 \<lparr>last_trade_datetime := Some (combine today (last_trade_time mwi))\<rparr>"
  show ?thesis
  proof (cases "first_index ?p (instruments repo)")
    case None
    from apply_trade_one_new[OF None, of blank today] blank obtain inst where
      st: "instruments ?after = instruments repo @ [inst]"
      and inst: "isin (identification inst) = isin (identification mwi)"
        "intraday_trade_candle inst = ?written"
      by (auto simp add: Let_def new_Instrument_def update_instrument_trade_data_candle
          update_instrument_trade_data_isin)
    from first_index_append_new[OF None, of inst] inst(1) st
    have fi: "first_index ?p (instruments ?after) = Some (length (instruments repo))"
      by simp
    from st have "length (candles ?after) \<noteq> length (candles repo)"
      by (simp add: candles_def)
    then have "candles ?after \<noteq> candles repo" by auto
    with fi st inst(2) show ?thesis by auto
  next
    case (Some j)
    from first_index_Some[OF Some] have len: "j < length (instruments repo)"
      and pj: "isin (identification (instruments repo ! j)) = isin (identification mwi)"
      by simp_all
    from nodup Some
    have differs: "\<not> (case last_trade_datetime (intraday_trade_candle (instruments repo ! j)) of
                None \<Rightarrow> False | Some ltd \<Rightarrow> dt_time ltd = last_trade_time mwi)"
      by (simp add: stored_time_equal_def)
    from apply_trade_one_found[OF Some, of blank today] differs obtain inst where
      st: "instruments ?after = (instruments repo)[j := inst]"
      and inst: "isin (identification inst) = isin (identification mwi)"
        "intraday_trade_candle inst = ?written"
      using pj
      by (auto simp add: Let_def update_instrument_trade_data_candle
          update_instrument_trade_data_isin)
    from first_index_update[OF Some, of inst] inst(1) st
    have fi: "first_index ?p (instruments ?after) = Some j"
      by simp
    from st len inst(2) have wj: "intraday_trade_candle (instruments ?after ! j) = ?written"
      by simp
    have "last_trade_datetime (intraday_trade_candle (instruments repo ! j))
            \<noteq> last_trade_datetime ?written"
      using differs by (auto simp add: combine_def split: option.splits)
    then have "intraday_trade_candle (instruments repo ! j) \<noteq> ?written"
      by auto
    with wj len st have "candles ?after ! j \<noteq> candles repo ! j"
      by (simp add: candles_def)
    then have "candles ?after \<noteq> candles repo" by auto
    with fi wj show ?thesis by auto
  qed
qed

text \<open>
  C3. Let the stored instrument of isin \<open>k\<close> have a last-trade timestamp, and let every
  record of the list that carries isin \<open>k\<close> have that timestamp's time of day as its
  last-trade time. Then \<open>apply_new_trade_data\<close> leaves the candle of that instrument as it
  was, field for field (also when the order-book loop raises, and whatever the records of
  other instruments do). A record that is not such a duplicate is written: when the
  instrument of its isin is not stored, or is stored without a timestamp or with another
  time of day (and a new instrument of the library has no timestamp), the stored candle
  of that isin holds afterwards the nine fields of the record and the record's time, and
  the candles of the repository have changed. After one application the record's time is
  the stored one, and applying the record a second time changes no candle, whatever the
  repository was before the first application.
\<close>

theorem apply_new_trade_data_writes_first_time_only:
  "(first_index (\<lambda>x. isin (identification x) = k) (instruments repo) = Some i
      \<and> last_trade_datetime (intraday_trade_candle (instruments repo ! i)) = Some ltd
      \<and> (\<forall>mwi\<in>set trade_data. isin (identification mwi) = k
             \<longrightarrow> last_trade_time mwi = dt_time ltd)
    \<longrightarrow> first_index (\<lambda>x. isin (identification x) = k)
          (instruments (state_of (apply_new_trade_data blank today repo trade_data))) = Some i
      \<and> intraday_trade_candle
          (instruments (state_of (apply_new_trade_data blank today repo trade_data)) ! i)
        = intraday_trade_candle (instruments repo ! i))
   \<and> (\<not> stored_time_equal repo mwi
        \<and> last_trade_datetime (intraday_trade_candle blank) = None
      \<longrightarrow> (\<exists>j. first_index (\<lambda>x. isin (identification x) = isin (identification mwi))
                 (instruments (state_of (apply_new_trade_data blank today repo [mwi]))) = Some j
               \<and> intraday_trade_candle
                   (instruments (state_of (apply_new_trade_data blank today repo [mwi])) ! j)
                 = (intraday_trade_candle mwi)
                     \<lparr>last_trade_datetime := Some (combine today (last_trade_time mwi))\<rparr>)
          \<and> candles (state_of (apply_new_trade_data blank today repo [mwi])) \<noteq> candles repo)
   \<and> stored_time_equal (state_of (apply_new_trade_data blank today repo [mwi])) mwi
   \<and> candles (state_of (apply_new_trade_data blank2 today2
                 (state_of (apply_new_trade_data blank today repo [mwi])) [mwi]))
       = candles (state_of (apply_new_trade_data blank today repo [mwi]))"
proof (intro conjI impI)
  assume h: "first_index (\<lambda>x. isin (identification x) = k) (instruments repo) = Some i
      \<and> last_trade_datetime (intraday_trade_candle (instruments repo ! i)) = Some ltd
      \<and> (\<forall>mwi\<in>set trade_data. isin (identification mwi) = k
             \<longrightarrow> last_trade_time mwi = dt_time ltd)"
  then have "holds_candle repo k i (intraday_trade_candle (instruments repo ! i))"
    by (simp add: holds_candle_def)
  from apply_new_trade_data_keeps_candle[OF this, of ltd trade_data blank today] h
  have r: "holds_candle (state_of (apply_new_trade_data blank today repo trade_data)) k i
          (intraday_trade_candle (instruments repo ! i))"
    by simp
  from r show "first_index (\<lambda>x. isin (identification x) = k)
          (instruments (state_of (apply_new_trade_data blank today repo trade_data))) = Some i"
    by (simp add: holds_candle_def)
  from r show "intraday_trade_candle
          (instruments (state_of (apply_new_trade_data blank today repo trade_data)) ! i)
        = intraday_trade_candle (instruments repo ! i)"
    by (simp add: holds_candle_def)
next
  assume w: "\<not> stored_time_equal repo mwi
        \<and> last_trade_datetime (intraday_trade_candle blank) = None"
  from w apply_trade_one_writes[of repo mwi blank today]
  show "\<exists>j. first_index (\<lambda>x. isin (identification x) = isin (identification mwi))
                 (instruments (state_of (apply_new_trade_data blank today repo [mwi]))) = Some j
               \<and> intraday_trade_candle
                   (instruments (state_of (apply_new_trade_data blank today repo [mwi])) ! j)
                 = (intraday_trade_candle mwi)
                     \<lparr>last_trade_datetime := Some (combine today (last_trade_time mwi))\<rparr>"
    by (simp add: apply_new_trade_data_single)
  from w apply_trade_one_writes[of repo mwi blank today]
  show "candles (state_of (apply_new_trade_data blank today repo [mwi])) \<noteq> candles repo"
    by (simp add: apply_new_trade_data_single)
next
  show "stored_time_equal (state_of (apply_new_trade_data blank today repo [mwi])) mwi"
    by (simp add: apply_new_trade_data_single apply_trade_one_records_time)
next
  show "candles (state_of (apply_new_trade_data blank2 today2
                 (state_of (apply_new_trade_data blank today repo [mwi])) [mwi]))
       = candles (state_of (apply_new_trade_data blank today repo [mwi]))"
    by (simp add: apply_new_trade_data_single apply_trade_one_duplicate
        apply_trade_one_records_time)
qed

theorem apply_new_trade_data_writes_first_time_only_witness:
  "first_index (\<lambda>x. isin (identification x) = ''IRO1FOLD0001'') (instruments fold_repo) = Some 0
   \<and> last_trade_datetime (intraday_trade_candle (instruments fold_repo ! 0))
       = Some (combine a_day \<lparr>hour = 12, minute = 30, second = 0\<rparr>)
   \<and> isin (identification (fold_watch 5130 fold_rows)) = ''IRO1FOLD0001''
   \<and> last_trade_time (fold_watch 5130 fold_rows)
       = dt_time (combine a_day \<lparr>hour = 12, minute = 30, second = 0\<rparr>)
   \<and> last_price (intraday_trade_candle (fold_watch 5130 fold_rows)) = Some 5130
   \<and> last_price (intraday_trade_candle (instruments fold_repo ! 0)) = Some 5120
   \<and> intraday_trade_candle
         (instruments (state_of (apply_new_trade_data blank_Instrument a_day fold_repo
            [fold_watch 5130 fold_rows])) ! 0)
       = intraday_trade_candle (instruments fold_repo ! 0)
   \<and> \<not> stored_time_equal fold_repo fold_watch_later
   \<and> last_trade_datetime (intraday_trade_candle blank_Instrument) = None
   \<and> (\<exists>j. first_index (\<lambda>x. isin (identification x) = ''IRO1FOLD0001'')
             (instruments (state_of (apply_new_trade_data blank_Instrument a_day fold_repo
                [fold_watch_later]))) = Some j
          \<and> intraday_trade_candle
               (instruments (state_of (apply_new_trade_data blank_Instrument a_day fold_repo
                  [fold_watch_later])) ! j)
            = \<lparr>previous_price = Some 5000, close_price = Some 5100, last_price = Some 5130,
               open_price = Some 5050, max_price = Some 5200, min_price = Some 5000,
               trade_volume = Some 100000, trade_value = Some 510000000, trade_num = Some 40,
               last_trade_datetime =
                 Some (combine a_day \<lparr>hour = 12, minute = 31, second = 0\<rparr>)\<rparr>)
   \<and> candles (state_of (apply_new_trade_data blank_Instrument a_day fold_repo
         [fold_watch_later])) \<noteq> candles fold_repo"
proof -
  have a: "first_index (\<lambda>x. isin (identification x) = ''IRO1FOLD0001'')
             (instruments fold_repo) = Some 0"
    by (simp add: fold_repo_def fold_instrument_def fold_watch_def)
  have b: "last_trade_datetime (intraday_trade_candle (instruments fold_repo ! 0))
       = Some (combine a_day \<lparr>hour = 12, minute = 30, second = 0\<rparr>)"
    by (simp add: fold_repo_def fold_instrument_def)
  have c: "isin (identification (fold_watch 5130 fold_rows)) = ''IRO1FOLD0001''"
    by (simp add: fold_watch_def)
  have d: "last_trade_time (fold_watch 5130 fold_rows)
       = dt_time (combine a_day \<lparr>hour = 12, minute = 30, second = 0\<rparr>)"
    by (simp add: fold_watch_def combine_def)
  have e: "last_price (intraday_trade_candle (fold_watch 5130 fold_rows)) = Some 5130"
    "last_price (intraday_trade_candle (instruments fold_repo ! 0)) = Some 5120"
    by (simp_all add: fold_watch_def fold_repo_def fold_instrument_def)
  from d have d': "\<forall>mwi\<in>set [fold_watch 5130 fold_rows].
           isin (identification mwi) = ''IRO1FOLD0001''
             \<longrightarrow> last_trade_time mwi
                   = dt_time (combine a_day \<lparr>hour = 12, minute = 30, second = 0\<rparr>)"
    by simp
  from apply_new_trade_data_writes_first_time_only
         [of "''IRO1FOLD0001''" fold_repo 0
             "combine a_day \<lparr>hour = 12, minute = 30, second = 0\<rparr>"
             "[fold_watch 5130 fold_rows]" blank_Instrument a_day] a b d'
  have keep: "intraday_trade_candle
         (instruments (state_of (apply_new_trade_data blank_Instrument a_day fold_repo
            [fold_watch 5130 fold_rows])) ! 0)
       = intraday_trade_candle (instruments fold_repo ! 0)"
    by blast
  have f: "\<not> stored_time_equal fold_repo fold_watch_later"
    by (simp add: stored_time_equal_def fold_repo_def fold_instrument_def fold_watch_later_def
        fold_watch_def combine_def)
  have g: "last_trade_datetime (intraday_trade_candle blank_Instrument) = None"
    by (simp add: blank_Instrument_def)
  have id: "isin (identification fold_watch_later) = ''IRO1FOLD0001''"
    by (simp add: fold_watch_later_def fold_watch_def)
  have written: "(intraday_trade_candle fold_watch_later)
      \<lparr>last_trade_datetime := Some (combine a_day (last_trade_time fold_watch_later))\<rparr>
    = \<lparr>previous_price = Some 5000, close_price = Some 5100, last_price = Some 5130,
       open_price = Some 5050, max_price = Some 5200, min_price = Some 5000,
       trade_volume = Some 100000, trade_value = Some 510000000, trade_num = Some 40,
       last_trade_datetime = Some (combine a_day \<lparr>hour = 12, minute = 31, second = 0\<rparr>)\<rparr>"
    by (simp add: fold_watch_later_def fold_watch_def)
  from apply_new_trade_data_writes_first_time_only
         [where repo = fold_repo and mwi = fold_watch_later and blank = blank_Instrument
            and today = a_day] f g
  have wr: "(\<exists>j. first_index (\<lambda>x. isin (identification x) = isin (identification fold_watch_later))
             (instruments (state_of (apply_new_trade_data blank_Instrument a_day fold_repo
                [fold_watch_later]))) = Some j
          \<and> intraday_trade_candle
               (instruments (state_of (apply_new_trade_data blank_Instrument a_day fold_repo
                  [fold_watch_later])) ! j)
            = (intraday_trade_candle fold_watch_later)
                \<lparr>last_trade_datetime := Some (combine a_day (last_trade_time fold_watch_later))\<rparr>)
     \<and> candles (state_of (apply_new_trade_data blank_Instrument a_day fold_repo
         [fold_watch_later])) \<noteq> candles fold_repo"
    by blast
  from wr have wr': "(\<exists>j. first_index (\<lambda>x. isin (identification x) = ''IRO1FOLD0001'')
             (instruments (state_of (apply_new_trade_data blank_Instrument a_day fold_repo
                [fold_watch_later]))) = Some j
          \<and> intraday_trade_candle
               (instruments (state_of (apply_new_trade_data blank_Instrument a_day fold_repo
                  [fold_watch_later])) ! j)
            = \<lparr>previous_price = Some 5000, close_price = Some 5100, last_price = Some 5130,
               open_price = Some 5050, max_price = Some 5200, min_price = Some 5000,
               trade_volume = Some 100000, trade_value = Some 510000000, trade_num = Some 40,
               last_trade_datetime =
                 Some (combine a_day \<lparr>hour = 12, minute = 31, second = 0\<rparr>)\<rparr>)"
    unfolding id written by blast
  from a b c d e keep f g wr' wr show ?thesis by blast
qed

section \<open>Client-type records\<close>

text \<open>The guard of \<open>apply_new_client_type\<close> is the comparison of the eight fields.\<close>

lemma client_type_ne_mwi_fields:
  "client_type_ne_mwi ct mwi \<longleftrightarrow> client_type_fields ct \<noteq> client_type_fields mwi"
proof -
  have q: "\<And>x y :: ClientTypeTradeQuantity.
             x = y \<longleftrightarrow> ct_num x = ct_num y \<and> ct_volume x = ct_volume y"
    by auto
  have t: "\<And>x y :: ClientTypeTrade. x = y \<longleftrightarrow> buy x = buy y \<and> sell x = sell y"
    by auto
  show ?thesis
    by (auto simp add: client_type_ne_mwi_def client_type_fields_def t q)
qed

lemma apply_client_type_one_state: "state_of (apply_client_type_one mwi repo) = repo"
  by (simp add: apply_client_type_one_def mwi_client_type_def Let_def split: option.splits)

lemma apply_new_client_type_state:
  "state_of (apply_new_client_type repo client_type_list) = repo"
  unfolding apply_new_client_type_def
proof (induction client_type_list)
  case Nil
  then show ?case by simp
next
  case (Cons mwi client_type_list)
  from apply_client_type_one_state[of mwi repo] Cons.IH show ?case
    by (cases "apply_client_type_one mwi repo") simp_all
qed

lemma apply_new_client_type_equal:
  assumes "first_index (\<lambda>x. tsetmc_code (identification x) = mw_tsetmc_code mwi)
             (instruments repo) = Some i"
    and "client_type_fields (client_type (instruments repo ! i)) = client_type_fields mwi"
  shows "apply_new_client_type repo [mwi] = Returned repo"
  using assms
  by (simp add: apply_new_client_type_def apply_client_type_one_def Let_def
      client_type_ne_mwi_fields)

lemma apply_new_client_type_differs:
  assumes "first_index (\<lambda>x. tsetmc_code (identification x) = mw_tsetmc_code mwi)
             (instruments repo) = Some i"
    and "client_type_fields (client_type (instruments repo ! i)) \<noteq> client_type_fields mwi"
  shows "apply_new_client_type repo [mwi] = Raised AttributeError repo"
  using assms
  by (simp add: apply_new_client_type_def apply_client_type_one_def Let_def
      client_type_ne_mwi_fields mwi_client_type_def)

text \<open>
  C8. A client-type record whose tsetmc code is that of the stored instrument and whose
  eight fields differ from the stored ones: the guard holds, reading \<open>mwi.client_type\<close>
  raises \<open>AttributeError\<close>, and the repository is left as it was, so that none of the
  eight stored fields is overwritten.
\<close>

theorem client_type_overwrite_raises:
  "apply_new_client_type fold_repo [fold_client_type] = Raised AttributeError fold_repo
   \<and> client_type_fields (client_type (instruments fold_repo ! 0))
       = [None, None, None, None, None, None, None, None]
   \<and> client_type_fields fold_client_type
       = [Some 1, Some 100, Some 2, Some 200, Some 3, Some 300, Some 4, Some 400]
   \<and> tsetmc_code (identification (instruments fold_repo ! 0)) = mw_tsetmc_code fold_client_type"
proof (intro conjI)
  have fi: "first_index (\<lambda>x. tsetmc_code (identification x) = mw_tsetmc_code fold_client_type)
             (instruments fold_repo) = Some 0"
    by (simp add: fold_repo_def fold_instrument_def fold_watch_def fold_client_type_def)
  show stored: "client_type_fields (client_type (instruments fold_repo ! 0))
       = [None, None, None, None, None, None, None, None]"
    by (simp add: client_type_fields_def fold_repo_def fold_instrument_def
        blank_Instrument_def no_quantity_def)
  show incoming: "client_type_fields fold_client_type
       = [Some 1, Some 100, Some 2, Some 200, Some 3, Some 300, Some 4, Some 400]"
    by (simp add: client_type_fields_def fold_client_type_def)
  from stored incoming
  have "client_type_fields (client_type (instruments fold_repo ! 0))
          \<noteq> client_type_fields fold_client_type"
    by simp
  with fi show "apply_new_client_type fold_repo [fold_client_type]
                  = Raised AttributeError fold_repo"
    by (rule apply_new_client_type_differs)
  show "tsetmc_code (identification (instruments fold_repo ! 0))
          = mw_tsetmc_code fold_client_type"
    by (simp add: fold_repo_def fold_instrument_def fold_watch_def fold_client_type_def)
qed

section \<open>Order-book rows and notifications\<close>

lemma orderbook_loop_enumerate:
  "n + length incoming \<le> length stored \<Longrightarrow>
   orderbook_loop (enumerate n incoming) stored =
     Returned (take n stored @ incoming @ drop (n + length incoming) stored)"
proof (induction incoming arbitrary: n stored)
  case Nil
  then show ?case by simp
next
  case (Cons r rs)
  from Cons.prems have n: "n < length stored" by simp
  have same: "r = stored ! n \<Longrightarrow> stored[n := r] = stored"
    by simp
  have "orderbook_loop (enumerate n (r # rs)) stored =
          orderbook_loop (enumerate (Suc n) rs) (stored[n := r])"
    using n same by (auto simp add: update_instrument_orderbook_row_eq)
  also have "\<dots> = Returned (take (Suc n) (stored[n := r]) @ rs
                      @ drop (Suc n + length rs) (stored[n := r]))"
    using Cons.prems by (intro Cons.IH) simp
  also have "take (Suc n) (stored[n := r]) = take n stored @ [r]"
    using n by (simp add: take_Suc_conv_app_nth)
  also have "drop (Suc n + length rs) (stored[n := r]) = drop (Suc n + length rs) stored"
    by simp
  finally show ?case by simp
qed

lemma orderbook_loop_rows:
  assumes "length incoming \<le> length stored"
  shows "orderbook_loop (enumerate 0 incoming) stored =
           Returned (incoming @ drop (length incoming) stored)"
  using orderbook_loop_enumerate [of 0 incoming stored] assms by simp

text \<open>
  The partial payload holds the rows of the ranks it is given, in rank order, and no
  other row.
\<close>

lemma enumerate_by_index:
  "enumerate 0 xs = map (\<lambda>rn. (rn, xs ! rn)) [0..<length xs]"
  by (rule nth_equalityI) (simp_all add: nth_enumerate_eq)

lemma specific_rows_ranks:
  "instrument_data_orderbook_specific_rows instrument rs =
     [(''orderbook'',
       JList (map (\<lambda>rn. orderbook_row_json rn (rows (orderbook instrument) ! rn))
                (filter (\<lambda>rn. rn \<in> set rs) [0..<length (rows (orderbook instrument))])))]"
  by (simp add: instrument_data_orderbook_specific_rows_def enumerate_by_index filter_map
      comp_def)

lemma for_each_pushed:
  assumes "\<And>x s. pushed (state_of (body x s)) = pushed s"
  shows "pushed (state_of (for_each body xs s)) = pushed s"
proof (induction xs arbitrary: s)
  case Nil
  then show ?case by simp
next
  case (Cons x xs)
  show ?case
  proof (cases "body x s")
    case (Returned s')
    with assms[of x s] Cons.IH[of s'] show ?thesis by simp
  next
    case (Raised e s')
    with assms[of x s] show ?thesis by simp
  qed
qed

lemma apply_new_trade_data_pushed:
  "pushed (state_of (apply_new_trade_data blank today repo trade_data)) = pushed repo"
  unfolding apply_new_trade_data_def
  by (rule for_each_pushed) (simp add: apply_trade_one_def Let_def state_of_map_outcome)

lemma apply_new_client_type_pushed:
  "pushed (state_of (apply_new_client_type repo client_type_list)) = pushed repo"
  by (simp add: apply_new_client_type_state)

lemma trade_example:
  "apply_new_trade_data blank_Instrument a_day empty_repo [fold_watch 5120 fold_rows]
     = Returned fold_repo"
  by (simp add: fold_repo_def fold_instrument_def apply_new_trade_data_def
      apply_trade_one_def Let_def empty_repo_def fold_watch_def new_Instrument_def
      blank_Instrument_def update_instrument_trade_data_def fold_rows_def
      update_instrument_orderbook_row_eq fold_row_def no_side_def numeral_eq_Suc)

lemma rows_example:
  "apply_new_trade_data blank_Instrument a_day fold_repo
       [fold_watch 5120 (fold_rows[2 := fold_row 5085])]
     = Returned (fold_repo\<lparr>instruments :=
         [fold_instrument 5120 (fold_rows[2 := fold_row 5085])]\<rparr>)"
  by (simp add: fold_repo_def fold_instrument_def apply_new_trade_data_def
      apply_trade_one_def Let_def fold_watch_def combine_def fold_rows_def
      update_instrument_orderbook_row_eq fold_row_def)

text \<open>
  C1. A trade record for an instrument that is not stored: \<open>apply_new_trade_data\<close> stores
  the instrument with the candle and the order-book rows of the record, so the candles of
  the repository change, and the sequence of pusher calls afterwards is what it was
  before: no notification reaches the sink.
\<close>

theorem mutation_without_notification:
  "apply_new_trade_data blank_Instrument a_day empty_repo [fold_watch 5120 fold_rows]
     = Returned fold_repo
   \<and> candles fold_repo \<noteq> candles empty_repo
   \<and> pushed fold_repo = pushed empty_repo"
proof (intro conjI)
  show "apply_new_trade_data blank_Instrument a_day empty_repo [fold_watch 5120 fold_rows]
     = Returned fold_repo"
    by (rule trade_example)
  show "candles fold_repo \<noteq> candles empty_repo"
    by (simp add: candles_def fold_repo_def empty_repo_def)
  show "pushed fold_repo = pushed empty_repo"
    by (simp add: fold_repo_def empty_repo_def)
qed

text \<open>
  C4. A snapshot that differs from the stored rows at rank 2 only: the stored rows
  afterwards are the snapshot, so rank 2 is overwritten and the other ranks keep their
  content; the sequence of pusher calls stays empty, so no notification carries the
  changed rank.
\<close>

theorem rank_2_overwritten_without_notification:
  "apply_new_trade_data blank_Instrument a_day fold_repo
       [fold_watch 5120 (fold_rows[2 := fold_row 5085])]
     = Returned (fold_repo\<lparr>instruments :=
         [fold_instrument 5120 (fold_rows[2 := fold_row 5085])]\<rparr>)
   \<and> fold_rows[2 := fold_row 5085]
       = [fold_row 5100, fold_row 5090, fold_row 5085, fold_row 5070, fold_row 5060]
   \<and> fold_rows = [fold_row 5100, fold_row 5090, fold_row 5080, fold_row 5070, fold_row 5060]
   \<and> fold_row 5085 \<noteq> fold_row 5080
   \<and> pushed (fold_repo\<lparr>instruments :=
         [fold_instrument 5120 (fold_rows[2 := fold_row 5085])]\<rparr>) = []"
proof (intro conjI)
  show "apply_new_trade_data blank_Instrument a_day fold_repo
       [fold_watch 5120 (fold_rows[2 := fold_row 5085])]
     = Returned (fold_repo\<lparr>instruments :=
         [fold_instrument 5120 (fold_rows[2 := fold_row 5085])]\<rparr>)"
    by (rule rows_example)
  show "fold_rows[2 := fold_row 5085]
       = [fold_row 5100, fold_row 5090, fold_row 5085, fold_row 5070, fold_row 5060]"
    by (simp add: fold_rows_def)
  show "fold_rows = [fold_row 5100, fold_row 5090, fold_row 5080, fold_row 5070, fold_row 5060]"
    by (simp add: fold_rows_def)
  show "fold_row 5085 \<noteq> fold_row 5080"
    by (simp add: fold_row_def)
  show "pushed (fold_repo\<lparr>instruments :=
         [fold_instrument 5120 (fold_rows[2 := fold_row 5085])]\<rparr>) = []"
    by (simp add: fold_repo_def)
qed

section \<open>Commands of a connection\<close>

lemma rejected_command_inert:
  assumes "length (str_split CHR ''.'' message) \<noteq> 3
         \<or> str_split CHR ''.'' message ! 0 \<notin> set acceptable_actions
         \<or> str_split CHR ''.'' message ! 1 \<notin> set acceptable_channels
         \<or> (\<exists>x. find (\<lambda>x. length x \<noteq> 12)
                   (str_split CHR '','' (str_split CHR ''.'' message ! 2)) = Some x
                \<and> x \<noteq> [])"
  shows "handle_connection_turn repo channels client message
           = \<lparr>channels_after = channels, frames_sent = [], escaped = None\<rparr>"
proof -
  from assms have "handle_connection_message repo channels client message
                     = (channels, Inr None)"
    by (auto simp add: handle_connection_message_def Let_def)
  then show ?thesis
    by (simp add: handle_connection_turn_def)
qed

lemma subscription_loop_keeps_tail:
  "\<exists>x'. fst (subscription_loop channel_action_func initial_data_func client insts entries
               (x # xs) initial_data) = x' # xs"
proof (induction entries arbitrary: x initial_data)
  case Nil
  then show ?case by simp
next
  case (Cons entry entries)
  obtain counter isin_key where entry: "entry = (counter, isin_key)"
    by (cases entry)
  show ?case
  proof (cases "channel_action_func client x")
    case (Inl e)
    with entry show ?thesis by simp
  next
    case (Inr x')
    show ?thesis
    proof (cases "counter < length insts")
      case False
      with entry Inr show ?thesis by simp
    next
      case True
      show ?thesis
      proof (cases "insts ! counter")
        case None
        with entry Inr True Cons.IH[of x' initial_data] show ?thesis by simp
      next
        case (Some instrument)
        show ?thesis
        proof (cases "initial_data_func instrument")
          case (Inl e)
          with entry Inr True Some show ?thesis by simp
        next
          case (Inr d)
          with entry \<open>channel_action_func client x = Inr x'\<close> True Some
            Cons.IH[of x' "dict_set isin_key d initial_data"]
          show ?thesis by simp
        qed
      qed
    qed
  qed
qed

lemma no_channel_created_after_first:
  "\<exists>x'. fst (handle_connection_message repo (x # xs) client message) = x' # xs"
proof -
  have loop: "\<And>f g es. \<exists>x'. fst (subscription_loop f g client
                 (get_instruments repo
                    (str_split CHR '','' (str_split CHR ''.'' message ! 2)))
                 es (x # xs) []) = x' # xs"
    by (rule subscription_loop_keeps_tail)
  show ?thesis
    unfolding handle_connection_message_def Let_def
    using loop by (auto split: sum.splits option.splits)
qed

text \<open>
  C2. One channel exists, for IRO1FOLD0001, and a connection subscribes to the trades of
  IRO1IKCO0001: the connection is added to the trade subscribers of the channel of
  IRO1FOLD0001, and no channel is created for IRO1IKCO0001.
\<close>

theorem subscription_lands_on_first_channel:
  "handle_connection_message fold_repo [new_InstrumentChannel ''IRO1FOLD0001''] (1::nat)
     ''1.trade.IRO1IKCO0001''
   = ([\<lparr>ch_isin = ''IRO1FOLD0001'', trade_subscribers = {1}, orderbook_subscribers = {},
        clienttype_subscribers = {}\<rparr>], Inr (Some []))"
  by (simp add: handle_connection_message_def Let_def acceptable_actions_def
      acceptable_channels_def get_channel_action_func_def get_initial_data_func_def
      get_instruments_def fold_repo_def fold_instrument_def fold_watch_def
      new_InstrumentChannel_def subscribe_trade_def enumerate_eq_zip)

text \<open>
  C5. An unsubscribe command for an instrument the repository holds: the dictionary
  returned has the entry \<open>IRO1FOLD0001: None\<close>, it is not empty, and one frame is sent to
  the connection.
\<close>

theorem unsubscribe_known_identity_sends_frame:
  "handle_connection_turn fold_repo [] (1::nat) ''0.trade.IRO1FOLD0001''
   = \<lparr>channels_after = [new_InstrumentChannel ''IRO1FOLD0001''],
      frames_sent = [JObj [(''IRO1FOLD0001'', JNull)]],
      escaped = None\<rparr>"
  by (simp add: handle_connection_turn_def handle_connection_message_def Let_def
      acceptable_actions_def
      acceptable_channels_def get_channel_action_func_def get_initial_data_func_def
      get_instruments_def fold_repo_def fold_instrument_def fold_watch_def
      new_InstrumentChannel_def unsubscribe_trade_eq enumerate_eq_zip)

text \<open>
  C6. A command whose identity list is an empty token followed by a token of 11
  characters: the first token of a wrong length is the empty string, which is false, so
  the command is carried out, and the connection is added to the trade subscribers of a
  new channel.
\<close>

theorem empty_token_admits_short_identity:
  "handle_connection_turn fold_repo [] (1::nat) ''1.trade.,IRO1FOLD001''
   = \<lparr>channels_after =
        [\<lparr>ch_isin = [], trade_subscribers = {1}, orderbook_subscribers = {},
          clienttype_subscribers = {}\<rparr>],
      frames_sent = [],
      escaped = None\<rparr>"
  by (simp add: handle_connection_turn_def handle_connection_message_def Let_def
      acceptable_actions_def
      acceptable_channels_def get_channel_action_func_def get_initial_data_func_def
      get_instruments_def fold_repo_def fold_instrument_def fold_watch_def
      new_InstrumentChannel_def subscribe_trade_def enumerate_eq_zip upt_rec)

section \<open>Frames of the client\<close>

lemma process_message_unknown_first:
  assumes "first_index (\<lambda>x. isin (identification x) = isin_key) subscribed_instruments = None"
  shows "process_message py_int fromisoformat subscribed_instruments
           ((isin_key, channels) # rest) = Raised StopIteration subscribed_instruments"
  using assms by (simp add: process_message_def process_entry_def)

text \<open>
  C7. A frame whose first identity is not subscribed and whose second is:
  \<open>process_message\<close> raises \<open>StopIteration\<close> at the first and leaves the subscribed
  instrument as it was; the same frame without the first entry stores the thresholds.
\<close>

theorem unknown_identity_ends_frame:
  "process_message int_of_json no_timestamp (instruments fold_repo) thresholds_frame
     = Raised StopIteration (instruments fold_repo)
   \<and> process_message int_of_json no_timestamp (instruments fold_repo) (tl thresholds_frame)
     = Returned [(fold_instrument 5120 fold_rows)
         \<lparr>order_limitations := \<lparr>lim_max_price = Some 5500, lim_min_price = Some 4500\<rparr>\<rparr>]"
  by (simp add: process_message_def process_entry_def thresholds_frame_def fold_repo_def
      fold_instrument_def fold_watch_def process_channel_def message_thresholds_def
      assign_from_def)

end
